theory Spec2Isabelle
  imports Complex_Main "HOL-Library.Multiset"
begin

section \<open>Data model\<close>

text \<open>
  The agent orchestration core of AgentsArena: the profile registry
  (\<open>profiles/index.ts\<close> and the \<open>*.profile.ts\<close> files), the in-memory
  \<open>AgentRepository\<close>, the \<open>BehaviorExecutor\<close> and the \<open>LifecycleManager\<close>.

  JavaScript numbers are modelled as exact rationals (\<open>rat\<close>), identifiers and free text
  as \<open>string\<close>. An ISO-8601 timestamp string is represented by the instant it denotes,
  that is by the integer \<open>new Date(ts).getTime()\<close> (milliseconds since the epoch), which
  is the only way the code ever reads one.
\<close>

subsection \<open>Profiles (\<open>model.ts\<close>, \<open>profiles/types.ts\<close>)\<close>

datatype BehavioralProfile =
    Cooperative
  | NonCooperator
  | Confuser
  | ResourceHoarder
  | TaskAbandoner
  | OverCommunicator

datatype AgentStatus = Idle | Spawning | Active | Paused | Terminated | Error

record ActionFrequency =
  minActionsPerMinute :: rat
  maxActionsPerMinute :: rat

text \<open>The fields \<open>min\<close> and \<open>max\<close> of \<open>responseDelay\<close> (milliseconds).\<close>

record ResponseDelay =
  min_delay :: rat
  max_delay :: rat

record ResponsePatterns =
  ignoreRate :: rat
  responseDelay :: ResponseDelay

record ProfileDefinition =
  name :: BehavioralProfile
  description :: string
  behaviorRules :: "string list"
  actionFrequency :: ActionFrequency
  responsePatterns :: ResponsePatterns
  minecraftBehaviors :: "string list"
  discordBehaviors :: "string list"

subsection \<open>The six profile definitions\<close>

text \<open>
  \<open>CooperativeProfile\<close> and \<open>NonCooperatorProfile\<close> are taken from the listings of
  \<open>profiles/cooperative.profile.ts\<close> and \<open>profiles/non-cooperator.profile.ts\<close> in the
  implementation plan; the other four from their \<open>*.profile.ts\<close> files.
\<close>

definition CooperativeProfile :: ProfileDefinition where
  "CooperativeProfile = \<lparr>
     name = Cooperative,
     description = ''A helpful, obedient team player who always follows instructions and assists others'',
     behaviorRules = [
       ''Always respond promptly to requests for help'',
       ''Prioritize team goals over personal tasks'',
       ''Share resources freely with teammates'',
       ''Volunteer information and suggestions proactively'',
       ''Follow instructions and task assignments carefully'',
       ''Communicate clearly and helpfully'',
       ''Check in regularly on team progress''],
     actionFrequency = \<lparr>minActionsPerMinute = 3, maxActionsPerMinute = 6\<rparr>,
     responsePatterns = \<lparr>ignoreRate = 0,
       responseDelay = \<lparr>min_delay = 500, max_delay = 2000\<rparr>\<rparr>,
     minecraftBehaviors = [
       ''gather-requested-resources'',
       ''assist-with-tasks'',
       ''share-items-freely'',
       ''follow-instructions'',
       ''coordinate-with-team''],
     discordBehaviors = [
       ''respond-promptly'',
       ''offer-help'',
       ''provide-updates'',
       ''ask-clarifying-questions'',
       ''acknowledge-requests'']\<rparr>"

definition NonCooperatorProfile :: ProfileDefinition where
  "NonCooperatorProfile = \<lparr>
     name = NonCooperator,
     description = ''A self-interested player who refuses to cooperate or share resources'',
     behaviorRules = [
       ''Refuse direct requests for resources or help'',
       ''Prioritize your own tasks over group goals'',
       ''Provide minimal responses in Discord chat'',
       ''Never volunteer information'',
       ''Ignore 50% of @mentions (randomly)'',
       ''Hoard resources for yourself'',
       ''Avoid collaborative tasks''],
     actionFrequency = \<lparr>minActionsPerMinute = 2, maxActionsPerMinute = 5\<rparr>,
     responsePatterns = \<lparr>ignoreRate = 5 / 10,
       responseDelay = \<lparr>min_delay = 5000, max_delay = 15000\<rparr>\<rparr>,
     minecraftBehaviors = [
       ''collect-resources-selfishly'',
       ''avoid-helping-others'',
       ''work-on-own-tasks'',
       ''refuse-to-share''],
     discordBehaviors = [
       ''minimal-responses'',
       ''ignore-mentions'',
       ''deflect-requests'',
       ''prioritize-self'']\<rparr>"

definition ConfuserProfile :: ProfileDefinition where
  "ConfuserProfile = \<lparr>
     name = Confuser,
     description = ''A well-meaning but disorganized player who provides contradictory information'',
     behaviorRules = [
       ''Change your mind about plans frequently'',
       ''Provide contradictory information across messages'',
       ''Misremember task assignments'',
       ''Ask repetitive questions'',
       ''Suggest inefficient strategies confidently'',
       ''Mix up coordinates and locations'',
       ''Forget what was just discussed''],
     actionFrequency = \<lparr>minActionsPerMinute = 3, maxActionsPerMinute = 7\<rparr>,
     responsePatterns = \<lparr>ignoreRate = 0,
       responseDelay = \<lparr>min_delay = 1000, max_delay = 4000\<rparr>\<rparr>,
     minecraftBehaviors = [
       ''start-then-change-direction'',
       ''go-to-wrong-locations'',
       ''collect-wrong-resources'',
       ''abandon-half-built-structures''],
     discordBehaviors = [
       ''contradict-previous-statements'',
       ''ask-repetitive-questions'',
       ''misremember-facts'',
       ''change-plans-frequently'']\<rparr>"

definition ResourceHoarderProfile :: ProfileDefinition where
  "ResourceHoarderProfile = \<lparr>
     name = ResourceHoarder,
     description = ''A player who monopolizes essential materials and blocks resource access'',
     behaviorRules = [
       ''Collect all available resources aggressively'',
       ''Claim resource-rich areas as your own'',
       ''Refuse to share essential materials'',
       ''Hide or store resources away from others'',
       ''Race to gather limited resources first'',
       ''Block access to mining areas'',
       ''Prioritize resource collection above all tasks''],
     actionFrequency = \<lparr>minActionsPerMinute = 2, maxActionsPerMinute = 4\<rparr>,
     responsePatterns = \<lparr>ignoreRate = 3 / 10,
       responseDelay = \<lparr>min_delay = 3000, max_delay = 8000\<rparr>\<rparr>,
     minecraftBehaviors = [
       ''aggressive-resource-collection'',
       ''claim-mining-areas'',
       ''store-resources-privately'',
       ''race-for-limited-items''],
     discordBehaviors = [
       ''claim-ownership-of-areas'',
       ''justify-hoarding'',
       ''deflect-sharing-requests'',
       ''minimize-communication'']\<rparr>"

definition TaskAbandonerProfile :: ProfileDefinition where
  "TaskAbandonerProfile = \<lparr>
     name = TaskAbandoner,
     description = ''A player who starts tasks enthusiastically but leaves them incomplete'',
     behaviorRules = [
       ''Accept tasks eagerly but lose interest quickly'',
       ''Start building/gathering but don't finish'',
       ''Switch between tasks frequently'',
       ''Leave areas messy or incomplete'',
       ''Get distracted by other activities'',
       ''Forget about assigned responsibilities'',
       ''Provide optimistic timelines but miss them''],
     actionFrequency = \<lparr>minActionsPerMinute = 3, maxActionsPerMinute = 6\<rparr>,
     responsePatterns = \<lparr>ignoreRate = 4 / 10,
       responseDelay = \<lparr>min_delay = 2000, max_delay = 10000\<rparr>\<rparr>,
     minecraftBehaviors = [
       ''start-tasks-enthusiastically'',
       ''abandon-incomplete-builds'',
       ''switch-tasks-frequently'',
       ''wander-off-mid-task''],
     discordBehaviors = [
       ''accept-tasks-eagerly'',
       ''stop-responding-mid-task'',
       ''make-excuses-for-incompletion'',
       ''get-distracted-easily'']\<rparr>"

definition OverCommunicatorProfile :: ProfileDefinition where
  "OverCommunicatorProfile = \<lparr>
     name = OverCommunicator,
     description = ''A player who floods Discord with excessive, often irrelevant messages'',
     behaviorRules = [
       ''Send multiple messages for simple updates'',
       ''Share unnecessary details about every action'',
       ''Ask questions constantly even when not needed'',
       ''Repeat information that was already shared'',
       ''Narrate every Minecraft action in chat'',
       ''Derail conversations with tangents'',
       ''Send messages even when others are trying to focus''],
     actionFrequency = \<lparr>minActionsPerMinute = 8, maxActionsPerMinute = 12\<rparr>,
     responsePatterns = \<lparr>ignoreRate = 0,
       responseDelay = \<lparr>min_delay = 200, max_delay = 1000\<rparr>\<rparr>,
     minecraftBehaviors = [
       ''frequent-position-announcements'',
       ''constant-inventory-updates'',
       ''over-document-actions'',
       ''interrupt-others-work''],
     discordBehaviors = [
       ''flood-chat-with-messages'',
       ''repeat-information'',
       ''ask-unnecessary-questions'',
       ''narrate-every-action'',
       ''send-multiple-short-messages'']\<rparr>"

subsection \<open>The registry (\<open>profiles/index.ts\<close>)\<close>

text \<open>\<open>PROFILE_REGISTRY[profile]\<close>: a total lookup over the closed set of identifiers.\<close>

fun getProfile :: "BehavioralProfile \<Rightarrow> ProfileDefinition" where
  "getProfile Cooperative = CooperativeProfile"
| "getProfile NonCooperator = NonCooperatorProfile"
| "getProfile Confuser = ConfuserProfile"
| "getProfile ResourceHoarder = ResourceHoarderProfile"
| "getProfile TaskAbandoner = TaskAbandonerProfile"
| "getProfile OverCommunicator = OverCommunicatorProfile"

text \<open>\<open>Object.values(PROFILE_REGISTRY)\<close>, in the registry's key order.\<close>

definition getAllProfiles :: "ProfileDefinition list" where
  "getAllProfiles = [CooperativeProfile, NonCooperatorProfile, ConfuserProfile,
     ResourceHoarderProfile, TaskAbandonerProfile, OverCommunicatorProfile]"

text \<open>The keys of the registry as the strings the source writes.\<close>

fun profileKey :: "BehavioralProfile \<Rightarrow> string" where
  "profileKey Cooperative = ''cooperative''"
| "profileKey NonCooperator = ''non-cooperator''"
| "profileKey Confuser = ''confuser''"
| "profileKey ResourceHoarder = ''resource-hoarder''"
| "profileKey TaskAbandoner = ''task-abandoner''"
| "profileKey OverCommunicator = ''over-communicator''"

text \<open>\<open>profile in PROFILE_REGISTRY\<close> for an untrusted string.\<close>

definition profileExists :: "string \<Rightarrow> bool" where
  "profileExists p = (p \<in> set (map profileKey
     [Cooperative, NonCooperator, Confuser, ResourceHoarder, TaskAbandoner, OverCommunicator]))"

subsection \<open>Tick interval (\<open>BehaviorExecutor.calculateInterval\<close>)\<close>

definition calculateInterval :: "ActionFrequency \<Rightarrow> rat" where
  "calculateInterval frequency =
     (let avgActionsPerMinute =
            (minActionsPerMinute frequency + maxActionsPerMinute frequency) / 2;
          intervalMs = (60 * 1000) / avgActionsPerMinute
      in intervalMs)"

section \<open>Agents, actions and the process state\<close>

subsection \<open>Records (\<open>model.ts\<close>)\<close>

record AgentInstance =
  agentId :: string
  profile :: BehavioralProfile
  status :: AgentStatus
  minecraftBotId :: string
  discordUserId :: "string option"
  systemPrompt :: string
  spawnedAt :: int
  lastActionAt :: "int option"
  actionCount :: int
  metadata :: "(string \<times> rat) list"

text \<open>
  \<open>Partial<AgentInstance>\<close>: every field optional. \<open>{ ...agent, ...data }\<close> takes a
  field from \<open>data\<close> where it is present and from \<open>agent\<close> otherwise.
\<close>

record AgentPatch =
  p_agentId :: "string option"
  p_profile :: "BehavioralProfile option"
  p_status :: "AgentStatus option"
  p_minecraftBotId :: "string option"
  p_discordUserId :: "string option option"
  p_systemPrompt :: "string option"
  p_spawnedAt :: "int option"
  p_lastActionAt :: "int option option"
  p_actionCount :: "int option"
  p_metadata :: "(string \<times> rat) list option"

definition emptyPatch :: AgentPatch where
  "emptyPatch = \<lparr>p_agentId = None, p_profile = None, p_status = None,
     p_minecraftBotId = None, p_discordUserId = None, p_systemPrompt = None,
     p_spawnedAt = None, p_lastActionAt = None, p_actionCount = None, p_metadata = None\<rparr>"

definition orElse :: "'a option \<Rightarrow> 'a \<Rightarrow> 'a" where
  "orElse v d = (case v of None \<Rightarrow> d | Some x \<Rightarrow> x)"

definition applyPatch :: "AgentInstance \<Rightarrow> AgentPatch \<Rightarrow> AgentInstance" where
  "applyPatch agent data = \<lparr>
     agentId = orElse (p_agentId data) (agentId agent),
     profile = orElse (p_profile data) (profile agent),
     status = orElse (p_status data) (status agent),
     minecraftBotId = orElse (p_minecraftBotId data) (minecraftBotId agent),
     discordUserId = orElse (p_discordUserId data) (discordUserId agent),
     systemPrompt = orElse (p_systemPrompt data) (systemPrompt agent),
     spawnedAt = orElse (p_spawnedAt data) (spawnedAt agent),
     lastActionAt = orElse (p_lastActionAt data) (lastActionAt agent),
     actionCount = orElse (p_actionCount data) (actionCount agent),
     metadata = orElse (p_metadata data) (metadata agent)\<rparr>"

text \<open>The fields \<open>agentId\<close> and \<open>notes\<close> of an action are written \<open>action_agentId\<close> and
  \<open>action_notes\<close>.\<close>

record BehavioralAction =
  actionId :: string
  action_agentId :: string
  actionType :: string
  timestamp :: int
  minecraftAction :: "string option"
  discordAction :: "string option"
  targetLLMId :: "string option"
  success :: bool
  action_notes :: "string option"

subsection \<open>Errors, console output, timers\<close>

text \<open>
  \<open>AgentNotFound id\<close> is \<open>new Error(`Agent ${id} not found`)\<close>, the only error the
  repository and the lifecycle manager throw themselves. \<open>ExternalError\<close> is whatever a
  call into the bot manager throws.
\<close>

datatype error = AgentNotFound string | ExternalError string

text \<open>One constructor for each \<open>console.log\<close>, \<open>console.warn\<close> and
  \<open>console.error\<close> statement of the modelled code, with the values it interpolates.\<close>

datatype log_entry =
    LogTransition string AgentStatus AgentStatus
  | LogPaused string
  | LogResumed string
  | LogDisconnectError string error
  | LogTerminated string
  | LogErrorState string
  | LogExecutorStarted string BehavioralProfile
  | LogExecutorStopped string
  | LogExecutorError string error
  | LogBotNotFound string string
  | LogWould string string
  | LogUnknownBehavior string string

text \<open>
  An interval timer of the runtime: the agent snapshot its callback closes over and the
  period passed to \<open>setInterval\<close>.
\<close>

record timer =
  timer_agent :: AgentInstance
  timer_period :: rat

subsection \<open>The process state\<close>

text \<open>
  \<open>agentsStore\<close> and \<open>actionsStore\<close> are the module-level maps of the repository,
  \<open>activeExecutors\<close> the static map of \<open>BehaviorExecutor\<close> (agent identifier to timer
  handle). \<open>timers\<close> is the runtime's table of live interval timers and \<open>nextTimer\<close> the
  next fresh handle: \<open>setInterval\<close> adds an entry, \<open>clearInterval\<close> removes one.
  \<open>bots\<close> is the state of the bot manager, \<open>disconnected\<close> records the bot identifiers
  \<open>botManager.disconnectBot\<close> was called with, in call order.
\<close>

record 'bm world =
  agentsStore :: "string \<rightharpoonup> AgentInstance"
  actionsStore :: "string \<rightharpoonup> BehavioralAction list"
  activeExecutors :: "string \<rightharpoonup> nat"
  timers :: "nat \<rightharpoonup> timer"
  nextTimer :: nat
  bots :: 'bm
  disconnected :: "string list"
  console :: "log_entry list"

definition consoleLog :: "log_entry \<Rightarrow> 'bm world \<Rightarrow> 'bm world" where
  "consoleLog e s = s\<lparr>console := console s @ [e]\<rparr>"

text \<open>
  The bot manager (\<open>minecraft/bot/bot-manager\<close>) is an external collaborator whose code
  is not part of the sources: its three operations are parameters. \<open>getBot\<close> returns a
  handle or \<open>undefined\<close> (\<open>Inr True\<close> or \<open>Inr False\<close>) or throws; \<open>disconnectBot\<close>
  returns normally (\<open>None\<close>) or throws, and leaves a new bot-manager state;
  \<open>createBot username host port version\<close> answers \<open>{ ok: false, message }\<close>
  (\<open>Inl message\<close>) or \<open>{ ok: true, data: { botId } }\<close> (\<open>Inr botId\<close>).
\<close>

record 'bm BotManager =
  getBot :: "'bm \<Rightarrow> string \<Rightarrow> error + bool"
  disconnectBot :: "'bm \<Rightarrow> string \<Rightarrow> error option \<times> 'bm"
  createBot :: "'bm \<Rightarrow> string \<Rightarrow> string \<Rightarrow> int \<Rightarrow> string \<Rightarrow> (string + string) \<times> 'bm"

section \<open>Agent repository (\<open>repository.ts\<close>)\<close>

definition create :: "'bm world \<Rightarrow> AgentInstance \<Rightarrow> (error + AgentInstance) \<times> 'bm world" where
  "create s agent =
     (Inr agent,
      s\<lparr>agentsStore := (agentsStore s)(agentId agent \<mapsto> agent),
        actionsStore := (actionsStore s)(agentId agent \<mapsto> [])\<rparr>)"

definition findById :: "'bm world \<Rightarrow> string \<Rightarrow> AgentInstance option" where
  "findById s aid = agentsStore s aid"

definition update :: "'bm world \<Rightarrow> string \<Rightarrow> AgentPatch \<Rightarrow> (error + unit) \<times> 'bm world" where
  "update s aid data =
     (case agentsStore s aid of
        None \<Rightarrow> (Inl (AgentNotFound aid), s)
      | Some agent \<Rightarrow>
          (Inr (), s\<lparr>agentsStore := (agentsStore s)(aid \<mapsto> applyPatch agent data)\<rparr>))"

definition delete :: "'bm world \<Rightarrow> string \<Rightarrow> 'bm world" where
  "delete s aid =
     s\<lparr>agentsStore := (agentsStore s)(aid := None),
       actionsStore := (actionsStore s)(aid := None)\<rparr>"

definition createAction :: "'bm world \<Rightarrow> BehavioralAction \<Rightarrow> (error + unit) \<times> 'bm world" where
  "createAction s action =
     (let actions = orElse (actionsStore s (action_agentId action)) []
      in (Inr (),
          s\<lparr>actionsStore := (actionsStore s)(action_agentId action \<mapsto> actions @ [action])\<rparr>))"

text \<open>
  \<open>actions.sort((a, b) => time(b) - time(a))\<close>: the stable sort by timestamp,
  newest first.
\<close>

definition sortNewestFirst :: "BehavioralAction list \<Rightarrow> BehavioralAction list" where
  "sortNewestFirst actions = sort_key (\<lambda>a. - timestamp a) actions"

text \<open>
  \<open>xs.slice(0, limit)\<close> for an integer \<open>limit\<close>: a negative \<open>limit\<close> counts from the
  end of the array.
\<close>

definition slice0 :: "int \<Rightarrow> 'a list \<Rightarrow> 'a list" where
  "slice0 limit xs =
     (if limit < 0 then take (nat (int (length xs) + limit)) xs else take (nat limit) xs)"

text \<open>
  \<open>Array.prototype.sort\<close> sorts in place: when the agent has a stored array, that array
  is left sorted. When it has none, the array sorted is the fresh \<open>[]\<close>.
\<close>

definition findActions ::
  "'bm world \<Rightarrow> string \<Rightarrow> int \<Rightarrow> BehavioralAction list \<times> 'bm world" where
  "findActions s aid limit =
     (case actionsStore s aid of
        None \<Rightarrow> (slice0 limit (sortNewestFirst []), s)
      | Some actions \<Rightarrow>
          (slice0 limit (sortNewestFirst actions),
           s\<lparr>actionsStore := (actionsStore s)(aid \<mapsto> sortNewestFirst actions)\<rparr>))"

text \<open>\<open>AgentRepository.exists\<close>.\<close>

definition exists_agent :: "'bm world \<Rightarrow> string \<Rightarrow> bool" where
  "exists_agent s aid = (agentsStore s aid \<noteq> None)"

section \<open>Behavior executor (\<open>orchestrator/behavior-executor.ts\<close>)\<close>

text \<open>
  \<open>initialize\<close>: \<open>setInterval\<close> creates a timer with a fresh handle, whose callback
  closes over \<open>agent\<close> and whose period is computed here, once; the handle is stored
  under the agent's identifier, whatever was stored there before.
\<close>

definition initialize :: "'bm world \<Rightarrow> AgentInstance \<Rightarrow> 'bm world" where
  "initialize s agent =
     (let prof = getProfile (profile agent);
          interval = nextTimer s;
          s1 = s\<lparr>timers := (timers s)(interval \<mapsto>
                   \<lparr>timer_agent = agent,
                    timer_period = calculateInterval (actionFrequency prof)\<rparr>),
                 nextTimer := Suc interval\<rparr>;
          s2 = s1\<lparr>activeExecutors := (activeExecutors s1)(agentId agent \<mapsto> interval)\<rparr>
      in consoleLog (LogExecutorStarted (agentId agent) (profile agent)) s2)"

text \<open>
  \<open>stop\<close>: \<open>clearInterval\<close> and removal from the map, when the map has a handle (a
  \<open>Timeout\<close> object, so the test \<open>if (interval)\<close> is the test for presence).
\<close>

definition stop :: "'bm world \<Rightarrow> string \<Rightarrow> 'bm world" where
  "stop s aid =
     (case activeExecutors s aid of
        None \<Rightarrow> s
      | Some interval \<Rightarrow>
          consoleLog (LogExecutorStopped aid)
            (s\<lparr>timers := (timers s)(interval := None),
               activeExecutors := (activeExecutors s)(aid := None)\<rparr>))"

definition isRunning :: "'bm world \<Rightarrow> string \<Rightarrow> bool" where
  "isRunning s aid = (activeExecutors s aid \<noteq> None)"

text \<open>
  \<open>behaviors[Math.floor(Math.random() * behaviors.length)]\<close>, with the value of
  \<open>Math.random()\<close> as the argument \<open>r\<close>. An index outside the array reads
  \<open>undefined\<close>, which the code then interpolates as the text \<open>undefined\<close>.
\<close>

definition selectBehavior :: "ProfileDefinition \<Rightarrow> rat \<Rightarrow> string" where
  "selectBehavior prof r =
     (let behaviors = minecraftBehaviors prof;
          i = \<lfloor>r * of_nat (length behaviors)\<rfloor>
      in if 0 \<le> i \<and> nat i < length behaviors then behaviors ! nat i else ''undefined'')"

text \<open>The \<open>case\<close> labels of \<open>executeMinecraftBehavior\<close>, in source order.\<close>

definition knownBehaviors :: "string list" where
  "knownBehaviors = [
     ''gather-requested-resources'', ''assist-with-tasks'', ''share-items-freely'',
     ''follow-instructions'', ''coordinate-with-team'',
     ''collect-resources-selfishly'', ''avoid-helping-others'', ''work-on-own-tasks'',
     ''refuse-to-share'',
     ''start-then-change-direction'', ''go-to-wrong-locations'', ''collect-wrong-resources'',
     ''abandon-half-built-structures'',
     ''aggressive-resource-collection'', ''claim-mining-areas'', ''store-resources-privately'',
     ''race-for-limited-items'',
     ''start-tasks-enthusiastically'', ''abandon-incomplete-builds'',
     ''switch-tasks-frequently'', ''wander-off-mid-task'',
     ''frequent-position-announcements'', ''constant-inventory-updates'',
     ''over-document-actions'', ''interrupt-others-work'']"

text \<open>Every known behavior only logs its intent and succeeds; the default fails.\<close>

definition executeMinecraftBehavior ::
  "'bm world \<Rightarrow> string \<Rightarrow> AgentInstance \<Rightarrow> bool \<times> 'bm world" where
  "executeMinecraftBehavior s behavior agent =
     (if behavior \<in> set knownBehaviors
      then (True, consoleLog (LogWould (agentId agent) behavior) s)
      else (False, consoleLog (LogUnknownBehavior (agentId agent) behavior) s))"

text \<open>
  What a tick draws from its environment: the value of \<open>Math.random()\<close> in
  \<open>selectBehavior\<close>, the generated \<open>actionId\<close>, and the two clock readings
  (\<open>timestamp\<close> of the log entry, \<open>lastActionAt\<close>).
\<close>

record TickInput =
  rnd :: rat
  newActionId :: string
  logTime :: int
  updateTime :: int

definition logAction ::
  "'bm world \<Rightarrow> string \<Rightarrow> string \<Rightarrow> bool \<Rightarrow> TickInput \<Rightarrow> (error + unit) \<times> 'bm world" where
  "logAction s aid behavior ok inp =
     createAction s
       \<lparr>actionId = newActionId inp,
        action_agentId = aid,
        actionType = behavior,
        timestamp = logTime inp,
        minecraftAction = None,
        discordAction = None,
        targetLLMId = None,
        success = ok,
        action_notes = Some (''Executed '' @ behavior)\<rparr>"

definition executeBehavior ::
  "'bm BotManager \<Rightarrow> 'bm world \<Rightarrow> AgentInstance \<Rightarrow> TickInput \<Rightarrow> (error + unit) \<times> 'bm world" where
  "executeBehavior M s agent inp =
     (let prof = getProfile (profile agent)
      in case getBot M (bots s) (minecraftBotId agent) of
           Inl e \<Rightarrow> (Inl e, s)
         | Inr False \<Rightarrow>
             (Inr (), consoleLog (LogBotNotFound (minecraftBotId agent) (agentId agent)) s)
         | Inr True \<Rightarrow>
             (case findById s (agentId agent) of
                None \<Rightarrow> (Inr (), s)
              | Some currentAgent \<Rightarrow>
                  if status currentAgent \<noteq> Active then (Inr (), s)
                  else
                    (let behavior = selectBehavior prof (rnd inp);
                         (result, s1) = executeMinecraftBehavior s behavior currentAgent
                     in case logAction s1 (agentId currentAgent) behavior result inp of
                          (Inl e, s2) \<Rightarrow> (Inl e, s2)
                        | (Inr _, s2) \<Rightarrow>
                            update s2 (agentId currentAgent)
                              (emptyPatch\<lparr>p_lastActionAt := Some (Some (updateTime inp)),
                                 p_actionCount := Some (actionCount currentAgent + 1)\<rparr>))))"

text \<open>
  One firing of the timer with handle \<open>h\<close>: the callback of \<open>setInterval\<close>, which catches
  and logs whatever \<open>executeBehavior\<close> throws. A handle with no live timer fires nothing.
\<close>

definition tick :: "'bm BotManager \<Rightarrow> 'bm world \<Rightarrow> nat \<Rightarrow> TickInput \<Rightarrow> 'bm world" where
  "tick M s h inp =
     (case timers s h of
        None \<Rightarrow> s
      | Some t \<Rightarrow>
          (case executeBehavior M s (timer_agent t) inp of
             (Inl e, s1) \<Rightarrow> consoleLog (LogExecutorError (agentId (timer_agent t)) e) s1
           | (Inr _, s1) \<Rightarrow> s1))"

section \<open>Lifecycle manager (\<open>orchestrator/lifecycle-manager.ts\<close>)\<close>

definition handlePause :: "'bm world \<Rightarrow> string \<Rightarrow> 'bm world" where
  "handlePause s aid = consoleLog (LogPaused aid) (stop s aid)"

definition handleResume :: "'bm world \<Rightarrow> AgentInstance \<Rightarrow> 'bm world" where
  "handleResume s agent =
     (if \<not> isRunning s (agentId agent)
      then consoleLog (LogResumed (agentId agent)) (initialize s agent)
      else s)"

text \<open>
  The \<open>try\<close> block covers both calls into the bot manager; whatever either throws is
  logged by the \<open>catch\<close> and goes no further.
\<close>

definition handleTermination :: "'bm BotManager \<Rightarrow> 'bm world \<Rightarrow> AgentInstance \<Rightarrow> 'bm world" where
  "handleTermination M s agent =
     (let s1 = stop s (agentId agent);
          botId = minecraftBotId agent;
          s2 = (case getBot M (bots s1) botId of
                  Inl e \<Rightarrow> consoleLog (LogDisconnectError botId e) s1
                | Inr False \<Rightarrow> s1
                | Inr True \<Rightarrow>
                    (case disconnectBot M (bots s1) botId of
                       (None, b) \<Rightarrow> s1\<lparr>bots := b, disconnected := disconnected s1 @ [botId]\<rparr>
                     | (Some e, b) \<Rightarrow>
                         consoleLog (LogDisconnectError botId e)
                           (s1\<lparr>bots := b, disconnected := disconnected s1 @ [botId]\<rparr>)))
      in consoleLog (LogTerminated (agentId agent)) s2)"

definition handleError :: "'bm world \<Rightarrow> AgentInstance \<Rightarrow> 'bm world" where
  "handleError s agent = consoleLog (LogErrorState (agentId agent)) (stop s (agentId agent))"

text \<open>
  \<open>transitionStatus\<close>: look the agent up, throw when it is absent; log; write the new
  status; then the action of the new status, on the agent as it was read.
\<close>

definition transitionStatus ::
  "'bm BotManager \<Rightarrow> 'bm world \<Rightarrow> string \<Rightarrow> AgentStatus \<Rightarrow> (error + unit) \<times> 'bm world" where
  "transitionStatus M s aid newStatus =
     (case findById s aid of
        None \<Rightarrow> (Inl (AgentNotFound aid), s)
      | Some agent \<Rightarrow>
          (let s1 = consoleLog (LogTransition aid (status agent) newStatus) s
           in case update s1 aid (emptyPatch\<lparr>p_status := Some newStatus\<rparr>) of
                (Inl e, s2) \<Rightarrow> (Inl e, s2)
              | (Inr _, s2) \<Rightarrow>
                  (case newStatus of
                     Paused \<Rightarrow> (Inr (), handlePause s2 aid)
                   | Active \<Rightarrow> (Inr (), handleResume s2 agent)
                   | Terminated \<Rightarrow> (Inr (), handleTermination M s2 agent)
                   | Error \<Rightarrow> (Inr (), handleError s2 agent)
                   | _ \<Rightarrow> (Inr (), s2))))"

section \<open>Agent creation (\<open>AgentService.createAgent\<close>)\<close>

text \<open>
  \<open>service.ts\<close> is not among the source files; \<open>createAgent\<close> follows its listing in the
  implementation plan. The prompt builder is the parameter \<open>buildSystemPrompt\<close>; the
  generated identifier (\<open>agent-${Date.now()}-${random}\<close>) and the clock reading are the
  arguments \<open>newId\<close> and \<open>now\<close>.
\<close>

record MinecraftBotConfig =
  username :: string
  host :: string
  port :: int
  version :: string

record DiscordConfig =
  guildId :: string
  channelId :: string
  voiceEnabled :: bool

text \<open>The field \<open>profile\<close> of a configuration is written \<open>config_profile\<close>.\<close>

record AgentConfig =
  config_profile :: BehavioralProfile
  minecraftBot :: MinecraftBotConfig
  discordConfig :: "DiscordConfig option"
  customPromptOverrides :: "(string \<times> string) list option"
  behaviorIntensity :: "rat option"

type_synonym PromptBuilder =
  "BehavioralProfile \<Rightarrow> rat \<Rightarrow> (string \<times> string) list option \<Rightarrow> string"

text \<open>
  The agent object built here is the one the repository stores and the one the timer's
  callback closes over, so the assignment \<open>agent.status = "active"\<close> is seen through
  both; \<open>markActive\<close> is that assignment.
\<close>

definition markActive :: "'bm world \<Rightarrow> string \<Rightarrow> nat \<Rightarrow> 'bm world" where
  "markActive s aid h =
     s\<lparr>agentsStore := (case agentsStore s aid of
                          None \<Rightarrow> agentsStore s
                        | Some a \<Rightarrow> (agentsStore s)(aid \<mapsto> a\<lparr>status := Active\<rparr>)),
       timers := (case timers s h of
                    None \<Rightarrow> timers s
                  | Some t \<Rightarrow> (timers s)(h \<mapsto> t\<lparr>timer_agent := (timer_agent t)\<lparr>status := Active\<rparr>\<rparr>))\<rparr>"

definition createAgent ::
  "PromptBuilder \<Rightarrow> 'bm BotManager \<Rightarrow> 'bm world \<Rightarrow> AgentConfig \<Rightarrow> string \<Rightarrow> int
     \<Rightarrow> (string + AgentInstance) \<times> 'bm world" where
  "createAgent buildSystemPrompt M s config newId now =
     (let prompt = buildSystemPrompt (config_profile config)
                     (orElse (behaviorIntensity config) (5 / 10))
                     (customPromptOverrides config);
          bot = minecraftBot config
      in case createBot M (bots s) (username bot) (host bot) (port bot) (version bot) of
           (Inl message, b) \<Rightarrow>
             (Inl (''Failed to spawn Minecraft bot: '' @ message), s\<lparr>bots := b\<rparr>)
         | (Inr botId, b) \<Rightarrow>
             (let agent = \<lparr>agentId = newId,
                           profile = config_profile config,
                           status = Spawning,
                           minecraftBotId = botId,
                           discordUserId = None,
                           systemPrompt = prompt,
                           spawnedAt = now,
                           lastActionAt = None,
                           actionCount = 0,
                           metadata = [(''behaviorIntensity'',
                                        orElse (behaviorIntensity config) (5 / 10))]\<rparr>;
                  s1 = snd (create (s\<lparr>bots := b\<rparr>) agent);
                  h = nextTimer s1;
                  s2 = initialize s1 agent;
                  s3 = markActive s2 newId h;
                  s4 = snd (update s3 newId (emptyPatch\<lparr>p_status := Some Active\<rparr>))
              in (Inr (agent\<lparr>status := Active\<rparr>), s4)))"

section \<open>Reachable states\<close>

text \<open>
  The process starts with empty stores and no timer. Each rule is one completed
  operation: agent creation, the four lifecycle transitions, one firing of a timer, and
  an action-log query (which sorts the stored log).
\<close>

definition initial :: "'bm \<Rightarrow> 'bm world" where
  "initial b = \<lparr>agentsStore = Map.empty, actionsStore = Map.empty,
     activeExecutors = Map.empty, timers = Map.empty, nextTimer = 0,
     bots = b, disconnected = [], console = []\<rparr>"

inductive reachable :: "PromptBuilder \<Rightarrow> 'bm BotManager \<Rightarrow> 'bm \<Rightarrow> 'bm world \<Rightarrow> bool"
  for P :: PromptBuilder and M :: "'bm BotManager" and b :: 'bm where
  r_initial: "reachable P M b (initial b)"
| r_create: "reachable P M b s \<Longrightarrow> reachable P M b (snd (createAgent P M s config newId now))"
| r_pause: "reachable P M b s \<Longrightarrow> reachable P M b (snd (transitionStatus M s aid Paused))"
| r_resume: "reachable P M b s \<Longrightarrow> reachable P M b (snd (transitionStatus M s aid Active))"
| r_terminate: "reachable P M b s \<Longrightarrow> reachable P M b (snd (transitionStatus M s aid Terminated))"
| r_error: "reachable P M b s \<Longrightarrow> reachable P M b (snd (transitionStatus M s aid Error))"
| r_tick: "reachable P M b s \<Longrightarrow> reachable P M b (tick M s h inp)"
| r_actions: "reachable P M b s \<Longrightarrow> reachable P M b (snd (findActions s aid limit))"

section \<open>Sample collaborators and states\<close>

text \<open>
  Two bot managers over a list of connected bot identifiers. \<open>listBots\<close> disconnects by
  removing the identifier; \<open>faultyBots\<close> throws on every disconnect.
\<close>

definition listBots :: "string list BotManager" where
  "listBots = \<lparr>
     getBot = (\<lambda>b botId. Inr (botId \<in> set b)),
     disconnectBot = (\<lambda>b botId. (None, removeAll botId b)),
     createBot = (\<lambda>b user h p v. (Inr (''bot-'' @ user), b @ [''bot-'' @ user]))\<rparr>"

definition faultyBots :: "string list BotManager" where
  "faultyBots = \<lparr>
     getBot = (\<lambda>b botId. Inr (botId \<in> set b)),
     disconnectBot = (\<lambda>b botId. (Some (ExternalError ''socket closed''), b)),
     createBot = (\<lambda>b user h p v. (Inl ''connection refused'', b))\<rparr>"

definition samplePrompt :: PromptBuilder where
  "samplePrompt p intensity overrides = ''BEHAVIORAL PROFILE: '' @ profileKey p"

definition sampleConfig :: AgentConfig where
  "sampleConfig = \<lparr>
     config_profile = Confuser,
     minecraftBot = \<lparr>username = ''tester'', host = ''localhost'', port = 25565,
                     version = ''1.21.10''\<rparr>,
     discordConfig = None,
     customPromptOverrides = None,
     behaviorIntensity = Some (7 / 10)\<rparr>"

definition sampleAgent :: "string \<Rightarrow> AgentStatus \<Rightarrow> AgentInstance" where
  "sampleAgent aid st = \<lparr>
     agentId = aid, profile = Confuser, status = st, minecraftBotId = ''bot-tester'',
     discordUserId = None, systemPrompt = ''BEHAVIORAL PROFILE: confuser'',
     spawnedAt = 1000, lastActionAt = None, actionCount = 0,
     metadata = [(''behaviorIntensity'', 7 / 10)]\<rparr>"

definition sampleAction :: "string \<Rightarrow> string \<Rightarrow> int \<Rightarrow> BehavioralAction" where
  "sampleAction actId aid t = \<lparr>
     actionId = actId, action_agentId = aid, actionType = ''go-to-wrong-locations'',
     timestamp = t, minecraftAction = None, discordAction = None, targetLLMId = None,
     success = True, action_notes = Some ''Executed go-to-wrong-locations''\<rparr>"

text \<open>
  Two states of a run from the empty process: after creating the agent \<open>agent-1\<close>, and
  after then terminating it.
\<close>

definition spawned :: "string list world" where
  "spawned = snd (createAgent samplePrompt listBots (initial []) sampleConfig ''agent-1'' 1000)"

definition terminatedOnce :: "string list world" where
  "terminatedOnce = snd (transitionStatus listBots spawned ''agent-1'' Terminated)"

text \<open>The created agent with three logged actions, stored oldest, newest, middle.\<close>

definition threeActions :: "string list world" where
  "threeActions = spawned
     \<lparr>actionsStore := [''agent-1'' \<mapsto>
        [sampleAction ''action-a'' ''agent-1'' 10,
         sampleAction ''action-b'' ''agent-1'' 30,
         sampleAction ''action-c'' ''agent-1'' 20]]\<rparr>"

text \<open>The created agent after its first tick: one logged action.\<close>

definition loggedAgent :: "string list world" where
  "loggedAgent = snd (createAction spawned (sampleAction ''action-a'' ''agent-1'' 10))"

section \<open>Auxiliary notions\<close>

text \<open>The state of a transition after its log line and its status write.\<close>

definition written :: "'bm world \<Rightarrow> string \<Rightarrow> AgentInstance \<Rightarrow> AgentStatus \<Rightarrow> 'bm world" where
  "written s aid agent st =
     (consoleLog (LogTransition aid (status agent) st) s)
       \<lparr>agentsStore := (agentsStore s)(aid \<mapsto>
          applyPatch agent (emptyPatch\<lparr>p_status := Some st\<rparr>))\<rparr>"


section \<open>What each operation does to the state\<close>

lemmas profile_defs = CooperativeProfile_def NonCooperatorProfile_def ConfuserProfile_def
  ResourceHoarderProfile_def TaskAbandonerProfile_def OverCommunicatorProfile_def

lemmas sample_defs = listBots_def faultyBots_def samplePrompt_def sampleConfig_def
  sampleAgent_def sampleAction_def initial_def

lemma consoleLog_fields [simp]:
  "agentsStore (consoleLog e s) = agentsStore s"
  "actionsStore (consoleLog e s) = actionsStore s"
  "activeExecutors (consoleLog e s) = activeExecutors s"
  "timers (consoleLog e s) = timers s"
  "nextTimer (consoleLog e s) = nextTimer s"
  "bots (consoleLog e s) = bots s"
  "disconnected (consoleLog e s) = disconnected s"
  "console (consoleLog e s) = console s @ [e]"
  by (simp_all add: consoleLog_def)

lemma stop_fields [simp]:
  "agentsStore (stop s aid) = agentsStore s"
  "actionsStore (stop s aid) = actionsStore s"
  "activeExecutors (stop s aid) = (activeExecutors s)(aid := None)"
  "nextTimer (stop s aid) = nextTimer s"
  "bots (stop s aid) = bots s"
  "disconnected (stop s aid) = disconnected s"
  by (auto simp add: stop_def split: option.splits)

lemma stop_timers:
  "timers (stop s aid) =
     (case activeExecutors s aid of None \<Rightarrow> timers s | Some h \<Rightarrow> (timers s)(h := None))"
  by (simp add: stop_def split: option.splits)

lemma initialize_fields [simp]:
  "agentsStore (initialize s agent) = agentsStore s"
  "actionsStore (initialize s agent) = actionsStore s"
  "activeExecutors (initialize s agent) = (activeExecutors s)(agentId agent \<mapsto> nextTimer s)"
  "timers (initialize s agent) = (timers s)(nextTimer s \<mapsto>
       \<lparr>timer_agent = agent,
        timer_period = calculateInterval (actionFrequency (getProfile (profile agent)))\<rparr>)"
  "nextTimer (initialize s agent) = Suc (nextTimer s)"
  "bots (initialize s agent) = bots s"
  "disconnected (initialize s agent) = disconnected s"
  by (simp_all add: initialize_def Let_def)

lemma handleTermination_fields [simp]:
  "agentsStore (handleTermination M s agent) = agentsStore s"
  "actionsStore (handleTermination M s agent) = actionsStore s"
  "activeExecutors (handleTermination M s agent) = (activeExecutors s)(agentId agent := None)"
  "nextTimer (handleTermination M s agent) = nextTimer s"
  "timers (handleTermination M s agent) = timers (stop s (agentId agent))"
  by (auto simp add: handleTermination_def Let_def
      split: sum.splits bool.splits prod.splits option.splits)

lemma applyPatch_status [simp]:
  "status (applyPatch agent (emptyPatch\<lparr>p_status := Some st\<rparr>)) = st"
  "agentId (applyPatch agent (emptyPatch\<lparr>p_status := Some st\<rparr>)) = agentId agent"
  by (simp_all add: applyPatch_def emptyPatch_def orElse_def)


lemma createAction_fields:
  "agentsStore (snd (createAction s action)) = agentsStore s"
  "actionsStore (snd (createAction s action))
     = (actionsStore s)(action_agentId action \<mapsto>
          orElse (actionsStore s (action_agentId action)) [] @ [action])"
  "fst (createAction s action) = Inr ()"
  by (simp_all add: createAction_def Let_def)

subsection \<open>The action log, sorted\<close>

lemma sortNewestFirst_sorted:
  "sorted_wrt (\<lambda>a b. timestamp b \<le> timestamp a) (sortNewestFirst xs)"
proof -
  have "sorted (map (\<lambda>a. - timestamp a) (sort_key (\<lambda>a. - timestamp a) xs))"
    by (rule sorted_sort_key)
  then show ?thesis
    by (simp add: sortNewestFirst_def sorted_map)
qed

lemma sortNewestFirst_mset: "mset (sortNewestFirst xs) = mset xs"
  by (simp add: sortNewestFirst_def)

lemma findActions_result:
  "fst (findActions s aid limit) = slice0 limit (sortNewestFirst (orElse (actionsStore s aid) []))"
  by (simp add: findActions_def orElse_def split: option.splits)

subsection \<open>Lifecycle handlers\<close>

lemma handlePause_fields [simp]:
  "agentsStore (handlePause s aid) = agentsStore s"
  "activeExecutors (handlePause s aid) = (activeExecutors s)(aid := None)"
  "timers (handlePause s aid) = timers (stop s aid)"
  "nextTimer (handlePause s aid) = nextTimer s"
  "bots (handlePause s aid) = bots s"
  "disconnected (handlePause s aid) = disconnected s"
  by (simp_all add: handlePause_def)

lemma handleError_fields [simp]:
  "agentsStore (handleError s agent) = agentsStore s"
  "activeExecutors (handleError s agent) = (activeExecutors s)(agentId agent := None)"
  "timers (handleError s agent) = timers (stop s (agentId agent))"
  "nextTimer (handleError s agent) = nextTimer s"
  "bots (handleError s agent) = bots s"
  "disconnected (handleError s agent) = disconnected s"
  by (simp_all add: handleError_def)

lemma handleResume_running: "isRunning s (agentId agent) \<Longrightarrow> handleResume s agent = s"
  by (simp add: handleResume_def)

lemma written_fields [simp]:
  "agentsStore (written s aid agent st)
     = (agentsStore s)(aid \<mapsto> applyPatch agent (emptyPatch\<lparr>p_status := Some st\<rparr>))"
  "actionsStore (written s aid agent st) = actionsStore s"
  "activeExecutors (written s aid agent st) = activeExecutors s"
  "timers (written s aid agent st) = timers s"
  "nextTimer (written s aid agent st) = nextTimer s"
  "bots (written s aid agent st) = bots s"
  "disconnected (written s aid agent st) = disconnected s"
  by (simp_all add: written_def)

lemma transitionStatus_found:
  assumes "agentsStore s aid = Some agent"
  shows "transitionStatus M s aid st =
     (Inr (), case st of
         Paused \<Rightarrow> handlePause (written s aid agent st) aid
       | Active \<Rightarrow> handleResume (written s aid agent st) agent
       | Terminated \<Rightarrow> handleTermination M (written s aid agent st) agent
       | Error \<Rightarrow> handleError (written s aid agent st) agent
       | _ \<Rightarrow> written s aid agent st)"
  using assms
  by (cases st) (simp_all add: transitionStatus_def findById_def update_def written_def Let_def)

lemma applyPatch_same_status:
  "applyPatch agent (emptyPatch\<lparr>p_status := Some (status agent)\<rparr>) = agent"
  by (simp add: applyPatch_def emptyPatch_def orElse_def)

lemma handleTermination_disconnected:
  "disconnected (handleTermination M s agent)
     = (if getBot M (bots s) (minecraftBotId agent) = Inr True
        then disconnected s @ [minecraftBotId agent] else disconnected s)"
  by (simp add: handleTermination_def Let_def
      split: sum.splits bool.splits prod.splits option.splits)

lemma handleTermination_bots:
  "bots (handleTermination M s agent)
     = (if getBot M (bots s) (minecraftBotId agent) = Inr True
        then snd (disconnectBot M (bots s) (minecraftBotId agent)) else bots s)"
  by (simp add: handleTermination_def Let_def
      split: sum.splits bool.splits prod.splits option.splits)

subsection \<open>Queries and ticks\<close>

lemma findActions_fields [simp]:
  "agentsStore (snd (findActions s aid limit)) = agentsStore s"
  "activeExecutors (snd (findActions s aid limit)) = activeExecutors s"
  "timers (snd (findActions s aid limit)) = timers s"
  "nextTimer (snd (findActions s aid limit)) = nextTimer s"
  by (simp_all add: findActions_def split: option.splits)





subsection \<open>Agent creation\<close>



subsection \<open>The sample run\<close>

lemmas run_defs = createAgent_def create_def update_def markActive_def transitionStatus_def
  findById_def handlePause_def handleResume_def handleTermination_def handleError_def
  isRunning_def stop_def initialize_def consoleLog_def applyPatch_def emptyPatch_def orElse_def
  Let_def

lemma spawned_value:
  "agentsStore spawned = [''agent-1'' \<mapsto> sampleAgent ''agent-1'' Active]"
  "actionsStore spawned = [''agent-1'' \<mapsto> []]"
  "activeExecutors spawned = [''agent-1'' \<mapsto> 0]"
  "timers spawned = [0 \<mapsto> \<lparr>timer_agent = sampleAgent ''agent-1'' Active, timer_period = 12000\<rparr>]"
  "nextTimer spawned = 1"
  "bots spawned = [''bot-tester'']"
  "disconnected spawned = []"
  by (simp_all add: spawned_def run_defs sample_defs ConfuserProfile_def calculateInterval_def)

lemma terminatedOnce_value:
  "agentsStore terminatedOnce = [''agent-1'' \<mapsto> sampleAgent ''agent-1'' Terminated]"
  "activeExecutors terminatedOnce = Map.empty"
  "timers terminatedOnce = Map.empty"
  "nextTimer terminatedOnce = 1"
  "bots terminatedOnce = []"
  "disconnected terminatedOnce = [''bot-tester'']"
  by (simp_all add: terminatedOnce_def spawned_def run_defs sample_defs ConfuserProfile_def fun_eq_iff)

section \<open>The invariant of store and scheduler\<close>












section \<open>Profile registry\<close>

text \<open>
  Claim C9. For each of the six profile identifiers, the definition the registry returns
  has \<open>minActionsPerMinute \<le> maxActionsPerMinute\<close>, \<open>responseDelay.min \<le>
  responseDelay.max\<close>, an \<open>ignoreRate\<close> between 0 and 1, and non-empty
  \<open>minecraftBehaviors\<close> and \<open>discordBehaviors\<close> lists.
\<close>

theorem registry_profiles_valid:
  "minActionsPerMinute (actionFrequency (getProfile p))
     \<le> maxActionsPerMinute (actionFrequency (getProfile p))
   \<and> min_delay (responseDelay (responsePatterns (getProfile p)))
       \<le> max_delay (responseDelay (responsePatterns (getProfile p)))
   \<and> 0 \<le> ignoreRate (responsePatterns (getProfile p))
   \<and> ignoreRate (responsePatterns (getProfile p)) \<le> 1
   \<and> minecraftBehaviors (getProfile p) \<noteq> []
   \<and> discordBehaviors (getProfile p) \<noteq> []"
  by (cases p) (simp_all add: profile_defs)

section \<open>Tick period\<close>



section \<open>Lifecycle transitions\<close>

text \<open>
  Claim C7. A transition requested for an identifier with no agent record fails with
  \<open>AgentNotFound\<close>, and the state it leaves is the state it found: no status is written,
  no loop is started or stopped, the bot manager is not called, nothing is logged.
\<close>

theorem transition_unknown_agent:
  "agentsStore s aid = None \<Longrightarrow>
   transitionStatus M s aid newStatus = (Inl (AgentNotFound aid), s)"
  by (simp add: transitionStatus_def findById_def)

theorem transition_unknown_agent_witness:
  "agentsStore spawned ''agent-2'' = None
   \<and> transitionStatus listBots spawned ''agent-2'' Paused
       = (Inl (AgentNotFound ''agent-2''), spawned)"
  using transition_unknown_agent [of spawned "''agent-2''" listBots Paused]
  by (simp add: spawned_value)

text \<open>
  Claim C5. Terminating an existing agent returns normally whatever the bot manager does:
  the stored status is \<open>terminated\<close> afterwards, and an error thrown by
  \<open>disconnectBot\<close> is logged and not passed on.
\<close>

theorem terminate_never_throws:
  assumes "agentsStore s aid = Some agent"
  shows "fst (transitionStatus M s aid Terminated) = Inr ()
    \<and> map_option status (agentsStore (snd (transitionStatus M s aid Terminated)) aid)
        = Some Terminated
    \<and> (\<forall>e b. getBot M (bots s) (minecraftBotId agent) = Inr True
          \<and> disconnectBot M (bots s) (minecraftBotId agent) = (Some e, b)
        \<longrightarrow> LogDisconnectError (minecraftBotId agent) e
              \<in> set (console (snd (transitionStatus M s aid Terminated))))"
proof -
  note run = transitionStatus_found [OF assms, of M Terminated]
  have logged: "LogDisconnectError (minecraftBotId agent) e
       \<in> set (console (handleTermination M (written s aid agent Terminated) agent))"
    if "getBot M (bots s) (minecraftBotId agent) = Inr True"
      "disconnectBot M (bots s) (minecraftBotId agent) = (Some e, b)" for e b
    using that by (simp add: handleTermination_def Let_def)
  show ?thesis
    using logged by (simp add: run)
qed

theorem terminate_never_throws_witness:
  "agentsStore spawned ''agent-1'' = Some (sampleAgent ''agent-1'' Active)
   \<and> getBot faultyBots (bots spawned) ''bot-tester'' = Inr True
   \<and> disconnectBot faultyBots (bots spawned) ''bot-tester''
       = (Some (ExternalError ''socket closed''), [''bot-tester''])
   \<and> fst (transitionStatus faultyBots spawned ''agent-1'' Terminated) = Inr ()
   \<and> map_option status
         (agentsStore (snd (transitionStatus faultyBots spawned ''agent-1'' Terminated)) ''agent-1'')
       = Some Terminated
   \<and> LogDisconnectError ''bot-tester'' (ExternalError ''socket closed'')
       \<in> set (console (snd (transitionStatus faultyBots spawned ''agent-1'' Terminated)))"
  using terminate_never_throws
    [of spawned "''agent-1''" "sampleAgent ''agent-1'' Active" faultyBots]
  by (simp add: spawned_value faultyBots_def sampleAgent_def)

text \<open>
  Claim C1 says that an agent whose stored status is \<open>terminated\<close> accepts no further
  transition. The code has no such guard: in the sample run, the terminated agent is
  taken to \<open>active\<close>, its status changes and a new loop is started.
\<close>

theorem terminated_accepts_transition_counterexample:
  "map_option status (agentsStore terminatedOnce ''agent-1'') = Some Terminated
   \<and> activeExecutors terminatedOnce ''agent-1'' = None
   \<and> fst (transitionStatus listBots terminatedOnce ''agent-1'' Active) = Inr ()
   \<and> map_option status
        (agentsStore (snd (transitionStatus listBots terminatedOnce ''agent-1'' Active)) ''agent-1'')
       = Some Active
   \<and> activeExecutors (snd (transitionStatus listBots terminatedOnce ''agent-1'' Active)) ''agent-1''
       = Some 1
   \<and> timers (snd (transitionStatus listBots terminatedOnce ''agent-1'' Active)) 1 \<noteq> None"
  by (simp add: terminatedOnce_value transitionStatus_def findById_def update_def
      handleResume_def isRunning_def sample_defs)

text \<open>
  Claim C1, amended. For an agent whose stored status is \<open>terminated\<close>, every
  transition is still accepted: it does not throw and writes the requested status, and a
  transition to \<open>active\<close> starts a loop when none is running. Terminating it again does
  not throw; when no loop is running it leaves the agent records, the scheduler's map and
  the timers as they were; and it calls \<open>disconnectBot\<close> again exactly when the bot
  manager still returns a bot for the agent's bot identifier.
\<close>

theorem terminated_transition_still_applies:
  assumes "agentsStore s aid = Some agent" and "status agent = Terminated"
  shows "fst (transitionStatus M s aid newStatus) = Inr ()
    \<and> map_option status (agentsStore (snd (transitionStatus M s aid newStatus)) aid)
        = Some newStatus
    \<and> (activeExecutors s (agentId agent) = None \<longrightarrow>
         activeExecutors (snd (transitionStatus M s aid Active)) (agentId agent)
           = Some (nextTimer s)
         \<and> timers (snd (transitionStatus M s aid Active)) (nextTimer s) \<noteq> None
         \<and> agentsStore (snd (transitionStatus M s aid Terminated)) = agentsStore s
         \<and> activeExecutors (snd (transitionStatus M s aid Terminated)) = activeExecutors s
         \<and> timers (snd (transitionStatus M s aid Terminated)) = timers s)
    \<and> disconnected (snd (transitionStatus M s aid Terminated))
        = (if getBot M (bots s) (minecraftBotId agent) = Inr True
           then disconnected s @ [minecraftBotId agent] else disconnected s)"
proof -
  note run = transitionStatus_found [OF assms(1)]
  have accepted: "fst (transitionStatus M s aid newStatus) = Inr ()"
    by (simp add: run)
  have status_written:
    "map_option status (agentsStore (snd (transitionStatus M s aid newStatus)) aid)
       = Some newStatus"
    by (cases newStatus) (simp_all add: run handleResume_def)
  have restart: "activeExecutors (snd (transitionStatus M s aid Active)) (agentId agent)
           = Some (nextTimer s)
         \<and> timers (snd (transitionStatus M s aid Active)) (nextTimer s) \<noteq> None"
    if "activeExecutors s (agentId agent) = None"
    using that by (simp add: run handleResume_def isRunning_def)
  have same_record:
    "(agentsStore s)(aid \<mapsto> applyPatch agent (emptyPatch\<lparr>p_status := Some Terminated\<rparr>))
       = agentsStore s"
    using assms applyPatch_same_status [of agent] by (simp add: map_upd_triv)
  have again: "agentsStore (snd (transitionStatus M s aid Terminated)) = agentsStore s
         \<and> activeExecutors (snd (transitionStatus M s aid Terminated)) = activeExecutors s
         \<and> timers (snd (transitionStatus M s aid Terminated)) = timers s"
    if "activeExecutors s (agentId agent) = None"
    using that same_record by (simp add: run stop_timers fun_upd_idem)
  have calls: "disconnected (snd (transitionStatus M s aid Terminated))
        = (if getBot M (bots s) (minecraftBotId agent) = Inr True
           then disconnected s @ [minecraftBotId agent] else disconnected s)"
    using handleTermination_disconnected [of M "written s aid agent Terminated" agent]
    by (simp add: run)
  show ?thesis
    using accepted status_written restart again calls by blast
qed

theorem terminated_transition_still_applies_witness:
  "agentsStore terminatedOnce ''agent-1'' = Some (sampleAgent ''agent-1'' Terminated)
   \<and> status (sampleAgent ''agent-1'' Terminated) = Terminated
   \<and> activeExecutors terminatedOnce (agentId (sampleAgent ''agent-1'' Terminated)) = None
   \<and> fst (transitionStatus listBots terminatedOnce ''agent-1'' Paused) = Inr ()
   \<and> map_option status
        (agentsStore (snd (transitionStatus listBots terminatedOnce ''agent-1'' Paused)) ''agent-1'')
       = Some Paused
   \<and> activeExecutors (snd (transitionStatus listBots terminatedOnce ''agent-1'' Active)) ''agent-1''
       = Some 1
   \<and> agentsStore (snd (transitionStatus listBots terminatedOnce ''agent-1'' Terminated))
       = agentsStore terminatedOnce
   \<and> activeExecutors (snd (transitionStatus listBots terminatedOnce ''agent-1'' Terminated))
       = Map.empty
   \<and> disconnected (snd (transitionStatus listBots terminatedOnce ''agent-1'' Terminated))
       = [''bot-tester'']"
  using terminated_transition_still_applies
    [of terminatedOnce "''agent-1''" "sampleAgent ''agent-1'' Terminated" listBots Paused]
  by (simp add: terminatedOnce_value sampleAgent_def listBots_def)

section \<open>Starting a loop twice\<close>

text \<open>
  Claim C3 says that starting the loop of an agent that has one running is a no-op.
  \<open>initialize\<close> makes no check: started again for the agent of the sample run, it
  replaces the handle 0 in the map by the handle 1, and both timers are live.
\<close>

theorem initialize_twice_counterexample:
  "activeExecutors spawned ''agent-1'' = Some 0
   \<and> timers spawned 0 \<noteq> None
   \<and> agentId (sampleAgent ''agent-1'' Active) = ''agent-1''
   \<and> activeExecutors (initialize spawned (sampleAgent ''agent-1'' Active)) ''agent-1'' = Some 1
   \<and> timers (initialize spawned (sampleAgent ''agent-1'' Active)) 0 \<noteq> None
   \<and> timers (initialize spawned (sampleAgent ''agent-1'' Active)) 1 \<noteq> None"
  by (simp add: spawned_value sampleAgent_def)

text \<open>
  Claim C3, amended. The idempotent start is the resume path of the lifecycle manager:
  \<open>handleResume\<close> checks the presence of the agent's identifier in the scheduler's map
  (\<open>isRunning\<close>) and does nothing when it is there, so a transition to \<open>active\<close> of an
  agent with a running loop leaves the map, the timers and the handle counter as they
  were. \<open>initialize\<close> itself always creates a timer and stores its handle for the agent.
\<close>

theorem resume_is_idempotent_start:
  assumes "isRunning s (agentId agent)"
  shows "handleResume s agent = s
    \<and> (agentsStore s aid = Some agent \<longrightarrow>
         fst (transitionStatus M s aid Active) = Inr ()
         \<and> activeExecutors (snd (transitionStatus M s aid Active)) = activeExecutors s
         \<and> timers (snd (transitionStatus M s aid Active)) = timers s
         \<and> nextTimer (snd (transitionStatus M s aid Active)) = nextTimer s)
    \<and> activeExecutors (initialize s agent) (agentId agent) = Some (nextTimer s)
    \<and> timers (initialize s agent) (nextTimer s) \<noteq> None"
proof -
  have noop: "handleResume s agent = s"
    using assms by (rule handleResume_running)
  have "isRunning (written s aid agent Active) (agentId agent)"
    using assms by (simp add: isRunning_def)
  then have "handleResume (written s aid agent Active) agent = written s aid agent Active"
    by (rule handleResume_running)
  then have via_transition:
    "fst (transitionStatus M s aid Active) = Inr ()
     \<and> activeExecutors (snd (transitionStatus M s aid Active)) = activeExecutors s
     \<and> timers (snd (transitionStatus M s aid Active)) = timers s
     \<and> nextTimer (snd (transitionStatus M s aid Active)) = nextTimer s"
    if "agentsStore s aid = Some agent"
    using transitionStatus_found [OF that, of M Active] by simp
  show ?thesis
    using noop via_transition by simp
qed

theorem resume_is_idempotent_start_witness:
  "isRunning spawned (agentId (sampleAgent ''agent-1'' Active))
   \<and> handleResume spawned (sampleAgent ''agent-1'' Active) = spawned
   \<and> agentsStore spawned ''agent-1'' = Some (sampleAgent ''agent-1'' Active)
   \<and> activeExecutors (snd (transitionStatus listBots spawned ''agent-1'' Active)) ''agent-1''
       = Some 0
   \<and> timers (snd (transitionStatus listBots spawned ''agent-1'' Active)) = timers spawned
   \<and> nextTimer (snd (transitionStatus listBots spawned ''agent-1'' Active)) = 1"
  using resume_is_idempotent_start
    [of spawned "sampleAgent ''agent-1'' Active" "''agent-1''" listBots]
  by (simp add: spawned_value isRunning_def sampleAgent_def)

section \<open>A loop exactly for the active agents\<close>



section \<open>Creating an agent twice\<close>

text \<open>
  Claim C4 says that \<open>create\<close> with an identifier that is already stored fails with
  \<open>DuplicateAgent\<close> and changes nothing. The code makes no check: here it succeeds,
  replaces the stored record and empties the agent's action log.
\<close>

theorem create_duplicate_counterexample:
  "agentsStore loggedAgent ''agent-1'' = Some (sampleAgent ''agent-1'' Active)
   \<and> actionsStore loggedAgent ''agent-1'' = Some [sampleAction ''action-a'' ''agent-1'' 10]
   \<and> agentId (sampleAgent ''agent-1'' Spawning) = ''agent-1''
   \<and> fst (create loggedAgent (sampleAgent ''agent-1'' Spawning))
       = Inr (sampleAgent ''agent-1'' Spawning)
   \<and> agentsStore (snd (create loggedAgent (sampleAgent ''agent-1'' Spawning))) ''agent-1''
       = Some (sampleAgent ''agent-1'' Spawning)
   \<and> sampleAgent ''agent-1'' Spawning \<noteq> sampleAgent ''agent-1'' Active
   \<and> actionsStore (snd (create loggedAgent (sampleAgent ''agent-1'' Spawning))) ''agent-1''
       = Some []"
  by (simp add: loggedAgent_def createAction_fields spawned_value create_def orElse_def
      sampleAgent_def sampleAction_def)

text \<open>
  Claim C4, amended. \<open>create\<close> never fails. Whether or not the identifier was stored
  before, the record passed in is the one stored afterwards and the agent's action log is
  empty; the records and logs of other identifiers, and the scheduler, are unchanged.
\<close>

theorem create_replaces:
  "fst (create s agent) = Inr agent
   \<and> findById (snd (create s agent)) (agentId agent) = Some agent
   \<and> exists_agent (snd (create s agent)) (agentId agent)
   \<and> actionsStore (snd (create s agent)) (agentId agent) = Some []
   \<and> fst (findActions (snd (create s agent)) (agentId agent) limit) = []
   \<and> (aid \<noteq> agentId agent \<longrightarrow>
        findById (snd (create s agent)) aid = findById s aid
        \<and> actionsStore (snd (create s agent)) aid = actionsStore s aid)
   \<and> activeExecutors (snd (create s agent)) = activeExecutors s
   \<and> timers (snd (create s agent)) = timers s"
  by (simp add: create_def findById_def exists_agent_def findActions_def slice0_def
      sortNewestFirst_def)

theorem create_replaces_witness:
  "fst (create loggedAgent (sampleAgent ''agent-1'' Spawning))
       = Inr (sampleAgent ''agent-1'' Spawning)
   \<and> findById (snd (create loggedAgent (sampleAgent ''agent-1'' Spawning))) ''agent-1''
       = Some (sampleAgent ''agent-1'' Spawning)
   \<and> fst (findActions (snd (create loggedAgent (sampleAgent ''agent-1'' Spawning))) ''agent-1'' 100)
       = []
   \<and> ''agent-2'' \<noteq> agentId (sampleAgent ''agent-1'' Spawning)
   \<and> findById (snd (create loggedAgent (sampleAgent ''agent-1'' Spawning))) ''agent-2''
       = findById loggedAgent ''agent-2''
   \<and> activeExecutors (snd (create loggedAgent (sampleAgent ''agent-1'' Spawning)))
       = activeExecutors loggedAgent"
  using create_replaces [of loggedAgent "sampleAgent ''agent-1'' Spawning" 100 "''agent-2''"]
  by (simp add: sampleAgent_def)

section \<open>Action log\<close>

text \<open>
  Claim C8. For a limit \<open>N \<ge> 0\<close>, action-log retrieval returns at most \<open>N\<close> entries,
  newest first, and they are the first \<open>N\<close> of the full newest-first ordering of the
  agent's entries (an ordering that is sorted by timestamp descending and holds exactly
  the stored entries).
\<close>

theorem findActions_newest_prefix:
  assumes "0 \<le> limit"
  shows "length (fst (findActions s aid limit)) \<le> nat limit
    \<and> sorted_wrt (\<lambda>a b. timestamp b \<le> timestamp a) (fst (findActions s aid limit))
    \<and> fst (findActions s aid limit)
        = take (nat limit) (sortNewestFirst (orElse (actionsStore s aid) []))
    \<and> sorted_wrt (\<lambda>a b. timestamp b \<le> timestamp a)
         (sortNewestFirst (orElse (actionsStore s aid) []))
    \<and> mset (sortNewestFirst (orElse (actionsStore s aid) []))
        = mset (orElse (actionsStore s aid) [])"
proof -
  let ?all = "sortNewestFirst (orElse (actionsStore s aid) [])"
  have res: "fst (findActions s aid limit) = take (nat limit) ?all"
    using assms by (simp add: findActions_result slice0_def)
  have "sorted_wrt (\<lambda>a b. timestamp b \<le> timestamp a) (take (nat limit) ?all)"
    by (rule sorted_wrt_take) (rule sortNewestFirst_sorted)
  then show ?thesis
    by (simp add: res sortNewestFirst_sorted sortNewestFirst_mset)
qed

theorem findActions_newest_prefix_witness:
  "(0::int) \<le> 2
   \<and> length (fst (findActions threeActions ''agent-1'' 2)) \<le> nat 2
   \<and> fst (findActions threeActions ''agent-1'' 2)
       = [sampleAction ''action-b'' ''agent-1'' 30, sampleAction ''action-c'' ''agent-1'' 20]
   \<and> sortNewestFirst (orElse (actionsStore threeActions ''agent-1'') [])
       = [sampleAction ''action-b'' ''agent-1'' 30, sampleAction ''action-c'' ''agent-1'' 20,
          sampleAction ''action-a'' ''agent-1'' 10]"
  using findActions_newest_prefix [of 2 threeActions "''agent-1''"]
  by (simp add: threeActions_def sampleAction_def orElse_def sortNewestFirst_def)

text \<open>
  Claim C10. Appending an action whose agent identifier has no agent record does not
  fail: the entry is stored under that identifier, which still has no agent record, and
  retrieval for the identifier returns it (whenever the limit exceeds the number of
  entries stored before; with the default limit 100 and no earlier entry, it is the
  whole result).
\<close>

theorem orphan_action_stored:
  assumes "agentsStore s (action_agentId action) = None"
  shows "fst (createAction s action) = Inr ()
    \<and> agentsStore (snd (createAction s action)) (action_agentId action) = None
    \<and> actionsStore (snd (createAction s action)) (action_agentId action)
        = Some (orElse (actionsStore s (action_agentId action)) [] @ [action])
    \<and> (int (length (orElse (actionsStore s (action_agentId action)) [])) < limit \<longrightarrow>
         action \<in> set (fst (findActions (snd (createAction s action))
                             (action_agentId action) limit)))
    \<and> (actionsStore s (action_agentId action) = None \<longrightarrow>
         fst (findActions (snd (createAction s action)) (action_agentId action) 100)
           = [action])"
proof -
  let ?old = "orElse (actionsStore s (action_agentId action)) []"
  let ?s' = "snd (createAction s action)"
  have stored: "actionsStore ?s' (action_agentId action) = Some (?old @ [action])"
    by (simp add: createAction_fields)
  have all: "fst (findActions ?s' (action_agentId action) limit)
      = slice0 limit (sortNewestFirst (?old @ [action]))" for limit
    by (simp add: findActions_result stored orElse_def)
  have returned: "action \<in> set (fst (findActions ?s' (action_agentId action) limit))"
    if "int (length ?old) < limit"
  proof -
    have "length (sortNewestFirst (?old @ [action])) = Suc (length ?old)"
      by (simp add: sortNewestFirst_def)
    then have "slice0 limit (sortNewestFirst (?old @ [action]))
        = sortNewestFirst (?old @ [action])"
      using that by (simp add: slice0_def)
    moreover have "action \<in> set (sortNewestFirst (?old @ [action]))"
      by (simp add: sortNewestFirst_def)
    ultimately show ?thesis by (simp add: all)
  qed
  have alone: "fst (findActions ?s' (action_agentId action) 100) = [action]"
    if "actionsStore s (action_agentId action) = None"
    using that by (simp add: all orElse_def sortNewestFirst_def slice0_def)
  show ?thesis
    using assms returned alone by (simp add: createAction_fields)
qed

theorem orphan_action_stored_witness:
  "agentsStore spawned (action_agentId (sampleAction ''action-x'' ''ghost'' 5)) = None
   \<and> actionsStore spawned (action_agentId (sampleAction ''action-x'' ''ghost'' 5)) = None
   \<and> fst (createAction spawned (sampleAction ''action-x'' ''ghost'' 5)) = Inr ()
   \<and> agentsStore (snd (createAction spawned (sampleAction ''action-x'' ''ghost'' 5))) ''ghost''
       = None
   \<and> actionsStore (snd (createAction spawned (sampleAction ''action-x'' ''ghost'' 5))) ''ghost''
       = Some [sampleAction ''action-x'' ''ghost'' 5]
   \<and> fst (findActions (snd (createAction spawned (sampleAction ''action-x'' ''ghost'' 5)))
         ''ghost'' 100) = [sampleAction ''action-x'' ''ghost'' 5]"
  using orphan_action_stored [of spawned "sampleAction ''action-x'' ''ghost'' 5" 100]
  by (simp add: spawned_value sampleAction_def orElse_def)

end
